theory Spec2Isabelle
  imports Complex_Main "HOL-Library.AList" "HOL-Library.Sublist" "HOL-Library.Char_ord"
    "HOL-Library.Log_Nat"
begin

section \<open>The project service of the extension generator\<close>

text \<open>
  A shallow embedding of \<^verbatim>\<open>cli/src/service/project.service.ts\<close>: the two
  validators, \<^verbatim>\<open>generate\<close> with its four steps, and \<^verbatim>\<open>install\<close>.
  The process is a \<open>world\<close> that is passed along: working directory, file tree,
  the promises that are still pending, and the trace of what the service did.
  A function of the service returns how it ended (\<open>Return\<close>, \<open>Throw\<close> for an
  exception or a rejected promise, \<open>Exit\<close> for \<^verbatim>\<open>process.exit\<close>) and the new world.
\<close>

subsection \<open>JSON text and JavaScript values\<close>

text \<open>
  What stands in a file is JSON text; what the service holds in memory is a JavaScript
  value. A number of the text is given by the rational it denotes (so \<^verbatim>\<open>1e2\<close> and
  \<^verbatim>\<open>100\<close> are the same number); the members of an object are listed as they are written,
  a key possibly more than once.
\<close>

datatype json =
    JNull
  | JBool bool
  | JNumber rat
  | JString string
  | JArray "json list"
  | JObject "(string \<times> json) list"

text \<open>
  A number in memory is a double: a finite one is given by its value, and a number too
  large in magnitude is one of the two infinities. A value is \<^verbatim>\<open>undefined\<close>, \<^verbatim>\<open>null\<close>,
  a boolean, a number, a string, an array or an object; an object is the list of its
  properties in the order in which they are enumerated, each key once.
\<close>

datatype double = Finite rat | PosInfinity | NegInfinity

datatype jsvalue =
    Undefined
  | Null
  | Boolean bool
  | Number double
  | Str string
  | Arr "jsvalue list"
  | Obj "(string \<times> jsvalue) list"

type_synonym object = "(string \<times> jsvalue) list"

subsubsection \<open>Reading a number\<close>

text \<open>
  The double for a rational: the nearest of the binary64 numbers, of two equally near
  ones the one with the even significand, and an infinity once the magnitude reaches
  \<open>2 ^ 1024\<close>, also by rounding. \<open>floor_log2 a\<close> is the \<open>e\<close> with \<open>2 ^ e \<le> a < 2 ^ (e + 1)\<close>
  for a positive \<open>a\<close>; the significand has 53 bits, and below \<open>2 ^ - 1022\<close> the
  numbers are \<open>2 ^ - 1074\<close> apart.
\<close>

definition round_half_even :: "rat \<Rightarrow> int" where
  "round_half_even x =
     (let f = \<lfloor>x\<rfloor>; r = x - of_int f
      in if r < 1 / 2 then f else if 1 / 2 < r then f + 1 else if even f then f else f + 1)"

definition floor_log2 :: "rat \<Rightarrow> int" where
  "floor_log2 a =
     (case quotient_of a of
        (n, d) \<Rightarrow> let e = bitlen n - bitlen d in if 2 powi e \<le> a then e else e - 1)"

definition round_double :: "rat \<Rightarrow> double" where
  "round_double q =
     (if q = 0 then Finite 0
      else if 2 ^ 1024 \<le> \<bar>q\<bar> then (if 0 < q then PosInfinity else NegInfinity)
      else let a = \<bar>q\<bar>;
               e = max (floor_log2 a) (- 1022);
               u = 2 powi (e - 52);
               r = of_int (round_half_even (a / u)) * u
           in if 2 ^ 1024 \<le> r then (if 0 < q then PosInfinity else NegInfinity)
              else Finite (if 0 < q then r else - r))"

subsubsection \<open>Properties and their order\<close>

text \<open>
  A key that is an array index (the decimal numeral, without leading zeros, of a number
  up to \<open>2 ^ 32 - 2\<close>) is enumerated before every other key, the indices in ascending
  order; the other keys follow in the order in which they were created.
  \<open>set_prop\<close> defines a property: a key that the object has keeps its place.
\<close>

definition digit :: "char \<Rightarrow> bool" where
  "digit c = (48 \<le> (of_char c :: nat) \<and> (of_char c :: nat) \<le> 57)"

definition index_of :: "string \<Rightarrow> nat" where
  "index_of s = foldl (\<lambda>n c. 10 * n + (of_char c - 48)) 0 s"

definition is_index :: "string \<Rightarrow> bool" where
  "is_index s =
     (s \<noteq> [] \<and> list_all digit s \<and> (s = ''0'' \<or> hd s \<noteq> CHR ''0'') \<and>
      length s \<le> 10 \<and> index_of s \<le> 4294967294)"

fun insert_index :: "string \<Rightarrow> jsvalue \<Rightarrow> object \<Rightarrow> object" where
  "insert_index k v [] = [(k, v)]"
| "insert_index k v ((k', v') # obj) =
     (if is_index k' \<and> index_of k' < index_of k then (k', v') # insert_index k v obj
      else (k, v) # (k', v') # obj)"

definition set_prop :: "string \<Rightarrow> jsvalue \<Rightarrow> object \<Rightarrow> object" where
  "set_prop k v obj =
     (if k \<in> set (map fst obj) then AList.update k v obj
      else if is_index k then insert_index k v obj
      else obj @ [(k, v)])"

text \<open>\<^verbatim>\<open>obj.key\<close>: reading a property that the object does not have gives \<^verbatim>\<open>undefined\<close>.\<close>

definition get_prop :: "object \<Rightarrow> string \<Rightarrow> jsvalue" where
  "get_prop obj key = (case map_of obj key of None \<Rightarrow> Undefined | Some v \<Rightarrow> v)"

text \<open>
  Copying the own properties of \<open>source\<close> onto \<open>target\<close>, one after the other.
  The object literal \<^verbatim>\<open>{ ...a, ...b }\<close> is \<open>assign (assign [] a) b\<close>, and the
  properties written out in a literal are defined in the same way.
\<close>

definition assign :: "object \<Rightarrow> object \<Rightarrow> object" where
  "assign target source = fold (\<lambda>(k, v). set_prop k v) source target"

subsubsection \<open>Reading and writing JSON\<close>

text \<open>
  \<^verbatim>\<open>JSON.parse\<close>: numbers become doubles, and an object is built, at every depth, by
  defining its members one after the other, so that a key written twice keeps its last
  value. \<open>fromJSON\<close> is the object for the members of a file.
\<close>

fun JSON_parse :: "json \<Rightarrow> jsvalue"
  and parse_elements :: "json list \<Rightarrow> jsvalue list"
  and parse_members :: "(string \<times> json) list \<Rightarrow> object \<Rightarrow> object" where
  "JSON_parse JNull = Null"
| "JSON_parse (JBool b) = Boolean b"
| "JSON_parse (JNumber q) = Number (round_double q)"
| "JSON_parse (JString s) = Str s"
| "JSON_parse (JArray js) = Arr (parse_elements js)"
| "JSON_parse (JObject ms) = Obj (parse_members ms [])"
| "parse_elements [] = []"
| "parse_elements (j # js) = JSON_parse j # parse_elements js"
| "parse_members [] obj = obj"
| "parse_members ((k, j) # ms) obj = parse_members ms (set_prop k (JSON_parse j) obj)"

definition fromJSON :: "(string \<times> json) list \<Rightarrow> object" where
  "fromJSON members = parse_members members []"

text \<open>The value that a reader of the members finds for a key: the last one written.\<close>

definition json_member :: "(string \<times> json) list \<Rightarrow> string \<Rightarrow> json option" where
  "json_member members key = map_of (rev members) key"

text \<open>
  \<^verbatim>\<open>JSON.stringify\<close>: a property whose value is \<^verbatim>\<open>undefined\<close> is left out, an element
  of an array that is \<^verbatim>\<open>undefined\<close> is written \<^verbatim>\<open>null\<close>, and so is a number that is
  not finite. A finite double is written as a decimal literal that reads back as the same
  double; which literal that is, is the runtime's, so the function \<open>print\<close> from the
  double to the number its literal denotes is a parameter.
\<close>

fun to_json :: "(rat \<Rightarrow> rat) \<Rightarrow> jsvalue \<Rightarrow> json"
  and to_elements :: "(rat \<Rightarrow> rat) \<Rightarrow> jsvalue list \<Rightarrow> json list"
  and stringify :: "(rat \<Rightarrow> rat) \<Rightarrow> object \<Rightarrow> (string \<times> json) list" where
  "to_json print Undefined = JNull"
| "to_json print Null = JNull"
| "to_json print (Boolean b) = JBool b"
| "to_json print (Number (Finite q)) = JNumber (print q)"
| "to_json print (Number PosInfinity) = JNull"
| "to_json print (Number NegInfinity) = JNull"
| "to_json print (Str s) = JString s"
| "to_json print (Arr xs) = JArray (to_elements print xs)"
| "to_json print (Obj ms) = JObject (stringify print ms)"
| "to_elements print [] = []"
| "to_elements print (x # xs) = to_json print x # to_elements print xs"
| "stringify print [] = []"
| "stringify print ((k, Undefined) # ms) = stringify print ms"
| "stringify print ((k, v) # ms) = (k, to_json print v) # stringify print ms"

subsection \<open>Constants of the module\<close>

record json_format =
  spaces :: nat

definition deleteFiles :: "string list" where
  "deleteFiles = [''README.md'']"

definition deleteDirs :: "string list" where
  "deleteDirs = [''.git'', ''cli'']"

definition jsonFormat :: json_format where
  "jsonFormat = \<lparr>spaces = 2\<rparr>"

text \<open>
  Modelled from the spec: the type \<^verbatim>\<open>Feature\<close> of \<^verbatim>\<open>model/feature\<close> is an
  enumeration with the variants POPUP, OPTIONS and TAB.
\<close>

datatype Feature = POPUP | OPTIONS | TAB

text \<open>
  Modelled from the spec: the type \<^verbatim>\<open>Package\<close> of \<^verbatim>\<open>model/package\<close> is the
  tool's own package descriptor \<^verbatim>\<open>{ name, repository: { url } }\<close>.
\<close>

record repository =
  repo_url :: string

record Package =
  pkg_name :: string
  pkg_repository :: repository

subsection \<open>The pattern of project names\<close>

text \<open>
  \<^verbatim>\<open>/^[a-z0-9-_]+$/\<close>: one character class, repeated at least once, anchored at both
  ends (without the multiline flag \<^verbatim>\<open>$\<close> is the end of the input). The class has two
  ranges and two single characters: the hyphen after the range \<^verbatim>\<open>0-9\<close> stands for
  itself.
\<close>

datatype class_item = Range char char | Single char

fun in_item :: "char \<Rightarrow> class_item \<Rightarrow> bool" where
  "in_item c (Range lo hi) = (lo \<le> c \<and> c \<le> hi)"
| "in_item c (Single d) = (c = d)"

definition in_class :: "class_item list \<Rightarrow> char \<Rightarrow> bool" where
  "in_class items c = list_ex (in_item c) items"

text \<open>\<^verbatim>\<open>/^[items]+$/.test(s)\<close>\<close>

definition test :: "class_item list \<Rightarrow> string \<Rightarrow> bool" where
  "test items s = (s \<noteq> [] \<and> list_all (in_class items) s)"

definition projectNameMatch :: "class_item list" where
  "projectNameMatch =
     [Range (CHR ''a'') (CHR ''z''), Range (CHR ''0'') (CHR ''9''),
      Single (CHR ''-''), Single (CHR ''_'')]"

definition invalidProjectName :: "string \<Rightarrow> bool" where
  "invalidProjectName name = (\<not> test projectNameMatch name)"

text \<open>
  The spec's words for a valid name: not empty, and lowercase letters, digits, hyphen
  and underscore only.
\<close>

definition spec_valid_name :: "string \<Rightarrow> bool" where
  "spec_valid_name s =
     (s \<noteq> [] \<and> set s \<subseteq> set ''abcdefghijklmnopqrstuvwxyz0123456789-_'')"

subsection \<open>Files, operations and the world\<close>

text \<open>
  A path names a directory, a file that holds a JSON object (its members and the
  indentation it was written with), or some other file.
\<close>

datatype node = Directory | JsonFile "(string \<times> json) list" nat | OtherFile

type_synonym filesystem = "string \<Rightarrow> node option"

datatype error =
    ENOENT string
  | EISDIR string
  | ENOTDIR string
  | MODULE_NOT_FOUND string
  | SyntaxError string
  | Failure string

text \<open>The asynchronous operations the service starts; each gives a promise.\<close>

datatype io_op =
    Clone string string
  | Remove string
  | Unlink string
  | WriteJson string object json_format
  | Exec string

text \<open>
  The collaborators whose behaviour the service does not fix are parameters: the clone
  of the template repository and the child process, each of which may change the file
  tree and may fail, and the runtime's printing of a finite double.
\<close>

record collaborators =
  git_clone :: "string \<Rightarrow> string \<Rightarrow> filesystem \<Rightarrow> error option \<times> filesystem"
  exec :: "string \<Rightarrow> string \<Rightarrow> filesystem \<Rightarrow> error option \<times> filesystem"
  number_toString :: "rat \<Rightarrow> rat"

text \<open>
  What an operation does when it runs, by the documented behaviour of the libraries:
  \<^verbatim>\<open>fs.remove\<close> deletes a path with everything below it and succeeds on a path that
  is not there; \<^verbatim>\<open>fs.unlink\<close> deletes a file and fails on a path that is not there or
  is a directory; \<^verbatim>\<open>fs.writeJson\<close> stringifies the object and replaces the file.
  The service writes only files it has just read, so a write fails here only on a
  directory.
\<close>

fun perform :: "collaborators \<Rightarrow> io_op \<Rightarrow> string \<Rightarrow> filesystem \<Rightarrow> error option \<times> filesystem" where
  "perform C (Clone remote dir) wd fs = git_clone C remote dir fs"
| "perform C (Exec command) wd fs = exec C command wd fs"
| "perform C (Remove p) wd fs =
     (None, \<lambda>q. if q = p \<or> prefix (p @ ''/'') q then None else fs q)"
| "perform C (Unlink p) wd fs =
     (case fs p of
        None \<Rightarrow> (Some (ENOENT p), fs)
      | Some Directory \<Rightarrow> (Some (EISDIR p), fs)
      | Some _ \<Rightarrow> (None, fs(p := None)))"
| "perform C (WriteJson p obj format) wd fs =
     (case fs p of
        Some Directory \<Rightarrow> (Some (EISDIR p), fs)
      | _ \<Rightarrow>
          (None, fs(p \<mapsto> JsonFile (stringify (number_toString C) obj) (spaces format))))"

datatype message = Text string | Caught error

datatype event =
    LogError message
  | SpinnerStart string
  | SpinnerStop "string option"
  | Issued io_op
  | Settled io_op "error option"
  | Required string
  | UnhandledRejection error

record world =
  cwd :: string
  files :: filesystem
  pending :: "io_op list"
  trace :: "event list"

datatype 'a outcome = Return 'a | Throw error | Exit nat

type_synonym 'a action = "world \<Rightarrow> 'a outcome \<times> world"

text \<open>Statements one after the other: the first that does not return ends the run.\<close>

fun run_steps :: "unit action list \<Rightarrow> unit action" where
  "run_steps [] w = (Return (), w)"
| "run_steps (s # ss) w =
     (case s w of (Return _, w') \<Rightarrow> run_steps ss w' | (Throw e, w') \<Rightarrow> (Throw e, w')
      | (Exit n, w') \<Rightarrow> (Exit n, w'))"

text \<open>\<^verbatim>\<open>try { body } catch (e) { handler }\<close>\<close>

definition try_catch :: "unit action \<Rightarrow> (error \<Rightarrow> unit action) \<Rightarrow> unit action" where
  "try_catch body handler w =
     (case body w of (Throw e, w') \<Rightarrow> handler e w' | (Return x, w') \<Rightarrow> (Return x, w')
      | (Exit n, w') \<Rightarrow> (Exit n, w'))"

text \<open>
  Modelled from the spec: \<^verbatim>\<open>LogService\<close> and \<^verbatim>\<open>SpinnerService\<close> are a logger and a
  progress reporter; a call emits its line and returns.
\<close>

definition log_error :: "message \<Rightarrow> unit action" where
  "log_error m w = (Return (), w\<lparr>trace := trace w @ [LogError m]\<rparr>)"

definition spinner_start :: "string \<Rightarrow> unit action" where
  "spinner_start text w = (Return (), w\<lparr>trace := trace w @ [SpinnerStart text]\<rparr>)"

definition spinner_stop :: "string option \<Rightarrow> unit action" where
  "spinner_stop text w = (Return (), w\<lparr>trace := trace w @ [SpinnerStop text]\<rparr>)"

definition process_exit :: "nat \<Rightarrow> unit action" where
  "process_exit status w = (Exit status, w)"

subsection \<open>Promises\<close>

text \<open>
  Starting an operation gives a pending promise. The operation runs, and its promise
  settles, only while the caller is suspended; what the caller awaits has settled when
  it goes on. Of the possible schedules the model takes one: an operation nobody awaits
  stays pending while the service runs, and \<open>settle_pending\<close> is the event loop finishing
  such operations afterwards. A rejection that no handler takes is reported by the
  runtime, not by the service, and is recorded as \<open>UnhandledRejection\<close>. What is proved
  about the time before a step begins does not depend on the schedule: between the start
  of the removals and the reading of \<^verbatim>\<open>package.json\<close> the service is not suspended on
  any operation.
\<close>

definition issue :: "io_op \<Rightarrow> world \<Rightarrow> world" where
  "issue op w = w\<lparr>pending := pending w @ [op], trace := trace w @ [Issued op]\<rparr>"

definition settle :: "collaborators \<Rightarrow> io_op \<Rightarrow> world \<Rightarrow> error option \<times> world" where
  "settle C op w =
     (case perform C op (cwd w) (files w) of
        (r, fs) \<Rightarrow>
          (r, w\<lparr>files := fs, pending := remove1 op (pending w),
                trace := trace w @ [Settled op r]\<rparr>))"

text \<open>\<^verbatim>\<open>await p\<close> for the promise of one operation.\<close>

definition await :: "collaborators \<Rightarrow> io_op \<Rightarrow> unit action" where
  "await C op w =
     (case settle C op w of
        (None, w') \<Rightarrow> (Return (), w')
      | (Some e, w') \<Rightarrow> (Throw e, w'))"

text \<open>
  The elements handed to \<^verbatim>\<open>Promise.all\<close>: a promise, or an array. \<^verbatim>\<open>Promise.all\<close>
  waits for the elements that are promises and rejects with the first rejection; an
  element that is not a promise, such as an array, counts as a value that is already
  there, whatever it holds.
\<close>

datatype element = APromise io_op | AnArray "element list"

fun Promise_all :: "collaborators \<Rightarrow> element list \<Rightarrow> unit action" where
  "Promise_all C [] w = (Return (), w)"
| "Promise_all C (APromise op # xs) w =
     (case settle C op w of
        (None, w') \<Rightarrow> Promise_all C xs w'
      | (Some e, w') \<Rightarrow> (Throw e, w'))"
| "Promise_all C (AnArray ys # xs) w = Promise_all C xs w"

text \<open>
  What the runtime does with a rejection that no handler has taken: it prints a warning
  and goes on, or, by default in later versions, it ends the process with status 1.
\<close>

datatype rejection_policy = Warn | Terminate

fun drain :: "rejection_policy \<Rightarrow> collaborators \<Rightarrow> io_op list \<Rightarrow> unit action" where
  "drain policy C [] w = (Return (), w)"
| "drain policy C (op # ops) w =
     (case settle C op w of
        (None, w') \<Rightarrow> drain policy C ops w'
      | (Some e, w') \<Rightarrow>
          (case policy of
             Warn \<Rightarrow> drain policy C ops (w'\<lparr>trace := trace w' @ [UnhandledRejection e]\<rparr>)
           | Terminate \<Rightarrow> (Exit 1, w'\<lparr>trace := trace w' @ [UnhandledRejection e]\<rparr>)))"

definition settle_pending :: "rejection_policy \<Rightarrow> collaborators \<Rightarrow> unit action" where
  "settle_pending policy C w = drain policy C (pending w) w"

subsection \<open>The service\<close>

definition and_then :: "'a action \<Rightarrow> ('a \<Rightarrow> 'b action) \<Rightarrow> 'b action" where
  "and_then m f w =
     (case m w of (Return x, w') \<Rightarrow> f x w' | (Throw e, w') \<Rightarrow> (Throw e, w')
      | (Exit n, w') \<Rightarrow> (Exit n, w'))"

definition if_then :: "bool \<Rightarrow> unit action \<Rightarrow> unit action" where
  "if_then b body w = (if b then body w else (Return (), w))"

text \<open>Starting an operation and awaiting its promise at once.\<close>

definition awaited :: "collaborators \<Rightarrow> io_op \<Rightarrow> unit action" where
  "awaited C op w = await C op (issue op w)"

definition getProjectDir :: "world \<Rightarrow> string \<Rightarrow> string" where
  "getProjectDir w nm = cwd w @ ''/'' @ nm"

text \<open>\<^verbatim>\<open>projectNameMatch.toString()\<close>\<close>

definition projectNameMatch_toString :: string where
  "projectNameMatch_toString = ''/^[a-z0-9-_]+$/''"

text \<open>\<^verbatim>\<open>fs.pathExists\<close>: whether anything is at the path, a file or a directory.\<close>

definition existsAsync :: "string \<Rightarrow> world \<Rightarrow> bool" where
  "existsAsync projectName w = (files w (getProjectDir w projectName) \<noteq> None)"

definition validateName :: "string \<Rightarrow> unit action" where
  "validateName projectName =
     run_steps
       [if_then (invalidProjectName projectName)
          (run_steps
             [log_error (Text (''Invalid project name, must match: '' @ projectNameMatch_toString)),
              process_exit 1]),
        (\<lambda>w. let projectExists = existsAsync projectName w
             in if_then projectExists
                  (run_steps
                     [log_error (Text (''Project '' @ [CHR 0x27] @ projectName @ [CHR 0x27] @ '' already exists'')),
                      process_exit 1]) w)]"

definition validateFeatures :: "Feature list \<Rightarrow> unit action" where
  "validateFeatures features =
     if_then (length features = 0)
       (run_steps
          [log_error (Text ''You must select at least 1 feature''),
           process_exit 1])"

text \<open>
  \<^verbatim>\<open>cleanDir\<close> starts the three removals and hands \<^verbatim>\<open>Promise.all\<close> an array of
  two elements, each of them an array of promises.
\<close>

definition cleanDir :: "collaborators \<Rightarrow> string \<Rightarrow> unit action" where
  "cleanDir C cloneDir w =
     (let dirs = map (\<lambda>dir. Remove (cloneDir @ ''/'' @ dir)) deleteDirs;
          fls = map (\<lambda>file. Unlink (cloneDir @ ''/'' @ file)) deleteFiles
      in Promise_all C [AnArray (map APromise dirs), AnArray (map APromise fls)]
           (fold issue (dirs @ fls) w))"

text \<open>
  \<^verbatim>\<open>require\<close> of a JSON file reads and parses it at once; it throws when the file is
  not there or does not parse.
\<close>

definition require :: "string \<Rightarrow> object action" where
  "require path w =
     (case files w path of
        Some (JsonFile members ind) \<Rightarrow>
          (Return (fromJSON members), w\<lparr>trace := trace w @ [Required path]\<rparr>)
      | Some OtherFile \<Rightarrow> (Throw (SyntaxError path), w)
      | Some Directory \<Rightarrow> (Throw (MODULE_NOT_FOUND path), w)
      | None \<Rightarrow> (Throw (MODULE_NOT_FOUND path), w))"

definition writeManifestJson ::
  "collaborators \<Rightarrow> Package \<Rightarrow> string \<Rightarrow> string \<Rightarrow> Feature list \<Rightarrow> unit action" where
  "writeManifestJson C pkg cloneDir projectName features =
     (let manifestJson = cloneDir @ ''/angular/src/manifest.json''
      in and_then (require manifestJson) (\<lambda>currentManifest.
           let manifest =
                 assign []
                   [(''name'', Str projectName),
                    (''short_name'', Str projectName),
                    (''description'', Str (''Generated with '' @ pkg_name pkg)),
                    (''browser_action'',
                       if POPUP \<in> set features then get_prop currentManifest ''browser_action''
                       else Undefined),
                    (''options_page'',
                       if OPTIONS \<in> set features then get_prop currentManifest ''options_page''
                       else Undefined),
                    (''chrome_url_overrides'',
                       if TAB \<in> set features
                       then get_prop currentManifest ''chrome_url_overrides''
                       else Undefined)]
           in awaited C
                (WriteJson manifestJson (assign (assign [] currentManifest) manifest) jsonFormat)))"

definition writePackageJson ::
  "collaborators \<Rightarrow> Package \<Rightarrow> string \<Rightarrow> string \<Rightarrow> unit action" where
  "writePackageJson C pkg cloneDir projectName =
     (let packageJson = cloneDir @ ''/package.json''
      in and_then (require packageJson) (\<lambda>current.
           awaited C
             (WriteJson packageJson
                (assign (assign [] current)
                   [(''name'', Str projectName),
                    (''description'', Str (''Generated with '' @ pkg_name pkg)),
                    (''author'', Undefined)])
                jsonFormat)))"

definition generate ::
  "collaborators \<Rightarrow> Package \<Rightarrow> string \<Rightarrow> Feature list \<Rightarrow> unit action" where
  "generate C pkg projectName features w =
     (let cloneDir = getProjectDir w projectName;
          repository = pkg_repository pkg
      in try_catch
           (run_steps
              [spinner_start ''creating extension...'',
               awaited C (Clone (repo_url repository) cloneDir),
               cleanDir C cloneDir,
               writePackageJson C pkg cloneDir projectName,
               writeManifestJson C pkg cloneDir projectName features,
               spinner_stop (Some (''done! created extension in: '' @ cloneDir))])
           (\<lambda>e. run_steps [log_error (Caught e), spinner_stop None])
           w)"

text \<open>\<^verbatim>\<open>process.chdir\<close> throws when the path is not a directory.\<close>

definition process_chdir :: "string \<Rightarrow> unit action" where
  "process_chdir dir w =
     (case files w dir of
        Some Directory \<Rightarrow> (Return (), w\<lparr>cwd := dir\<rparr>)
      | Some _ \<Rightarrow> (Throw (ENOTDIR dir), w)
      | None \<Rightarrow> (Throw (ENOENT dir), w))"

definition execAsync :: "collaborators \<Rightarrow> string \<Rightarrow> unit action" where
  "execAsync C command = awaited C (Exec command)"

definition install :: "collaborators \<Rightarrow> string \<Rightarrow> unit action" where
  "install C projectName w =
     (let cloneDir = getProjectDir w projectName
      in run_steps
           [process_chdir cloneDir,
            try_catch
              (run_steps
                 [spinner_start ''installing dependencies...'',
                  execAsync C ''npm ci'',
                  spinner_stop (Some ''done! installed dependencies'')])
              (\<lambda>e. run_steps [log_error (Caught e), spinner_stop None])]
           w)"

text \<open>Short names for the two objects that are written, as the functions above build them.\<close>

abbreviation package_object :: "Package \<Rightarrow> string \<Rightarrow> object \<Rightarrow> object" where
  "package_object pkg projectName current \<equiv>
     assign (assign [] current)
       [(''name'', Str projectName),
        (''description'', Str (''Generated with '' @ pkg_name pkg)),
        (''author'', Undefined)]"

abbreviation manifest_object :: "Package \<Rightarrow> string \<Rightarrow> Feature list \<Rightarrow> object \<Rightarrow> object" where
  "manifest_object pkg projectName features currentManifest \<equiv>
     assign (assign [] currentManifest)
       (assign []
          [(''name'', Str projectName),
           (''short_name'', Str projectName),
           (''description'', Str (''Generated with '' @ pkg_name pkg)),
           (''browser_action'',
              if POPUP \<in> set features then get_prop currentManifest ''browser_action''
              else Undefined),
           (''options_page'',
              if OPTIONS \<in> set features then get_prop currentManifest ''options_page''
              else Undefined),
           (''chrome_url_overrides'',
              if TAB \<in> set features then get_prop currentManifest ''chrome_url_overrides''
              else Undefined)])"

text \<open>
  What \<^verbatim>\<open>fs.writeJson\<close> writes for a value that \<^verbatim>\<open>require\<close> has read and the service
  has only copied.
\<close>

definition rewritten :: "collaborators \<Rightarrow> json \<Rightarrow> json" where
  "rewritten C j = to_json (number_toString C) (JSON_parse j)"

text \<open>The members of the JSON file at a path.\<close>

definition members_at :: "world \<Rightarrow> string \<Rightarrow> (string \<times> json) list" where
  "members_at w path =
     (case files w path of Some (JsonFile members ind) \<Rightarrow> members | _ \<Rightarrow> [])"

text \<open>The messages given to \<^verbatim>\<open>log.error\<close>, in order.\<close>

fun logged_errors :: "event list \<Rightarrow> message list" where
  "logged_errors [] = []"
| "logged_errors (LogError m # evs) = m # logged_errors evs"
| "logged_errors (ev # evs) = logged_errors evs"

subsection \<open>Sample inputs\<close>

text \<open>
  A template as the clone leaves it, the tool's package descriptor, and a process started
  in \<^verbatim>\<open>/home/dev\<close>; the theorems below are tried on them.
\<close>

definition sample_manifest :: "(string \<times> json) list" where
  "sample_manifest =
     [(''manifest_version'', JNumber 2),
      (''name'', JString ''Angular Chrome Extension''),
      (''browser_action'', JObject [(''default_popup'', JString ''index.html?#/popup'')]),
      (''options_page'', JString ''index.html?#/options''),
      (''chrome_url_overrides'', JObject [(''newtab'', JString ''index.html?#/tab'')]),
      (''permissions'', JArray [JString ''tabs''])]"

definition sample_package :: "(string \<times> json) list" where
  "sample_package =
     [(''name'', JString ''angular-chrome-extension''),
      (''version'', JString ''1.0.0''),
      (''author'', JString ''someone''),
      (''dependencies'', JObject [(''rxjs'', JString ''6.5.4'')])]"

definition template_tree :: "string \<Rightarrow> filesystem" where
  "template_tree dir =
     [dir \<mapsto> Directory,
      dir @ ''/.git'' \<mapsto> Directory,
      dir @ ''/cli'' \<mapsto> Directory,
      dir @ ''/README.md'' \<mapsto> OtherFile,
      dir @ ''/package.json'' \<mapsto> JsonFile sample_package 4,
      dir @ ''/angular/src/manifest.json'' \<mapsto> JsonFile sample_manifest 4]"

text \<open>The same template after its README.md, .git and cli have gone from it.\<close>

definition bare_tree :: "string \<Rightarrow> filesystem" where
  "bare_tree dir =
     [dir \<mapsto> Directory,
      dir @ ''/package.json'' \<mapsto> JsonFile sample_package 4,
      dir @ ''/angular/src/manifest.json'' \<mapsto> JsonFile sample_manifest 4]"

text \<open>
  The sample runtime prints a double with all its digits, which for the whole numbers of
  the samples is the literal a runtime prints.
\<close>

definition sample_collaborators :: collaborators where
  "sample_collaborators =
     \<lparr>git_clone = (\<lambda>remote dir fs. (None, fs ++ template_tree dir)),
      exec = (\<lambda>command wd fs. (Some (Failure ''npm ci exited with code 1''), fs)),
      number_toString = (\<lambda>q. q)\<rparr>"

definition bare_collaborators :: collaborators where
  "bare_collaborators =
     \<lparr>git_clone = (\<lambda>remote dir fs. (None, fs ++ bare_tree dir)),
      exec = (\<lambda>command wd fs. (None, fs)),
      number_toString = (\<lambda>q. q)\<rparr>"

definition sample_pkg :: Package where
  "sample_pkg =
     \<lparr>pkg_name = ''acx'',
      pkg_repository = \<lparr>repo_url = ''https://github.com/larscom/angular-chrome-extension''\<rparr>\<rparr>"

definition sample_world :: world where
  "sample_world = \<lparr>cwd = ''/home/dev'', files = Map.empty, pending = [], trace = []\<rparr>"

definition cloned_world :: world where
  "cloned_world = sample_world\<lparr>files := template_tree ''/home/dev/my-app''\<rparr>"

text \<open>A process in whose working directory a plain file is named \<^verbatim>\<open>my-app\<close>.\<close>

definition file_world :: world where
  "file_world = sample_world\<lparr>files := [''/home/dev/my-app'' \<mapsto> OtherFile]\<rparr>"

text \<open>
  A manifest and a package.json with a number beyond the range of the doubles, and a
  process whose project directory holds them.
\<close>

definition huge_number :: rat where
  "huge_number = 10 ^ 400"

definition overflow_manifest :: "(string \<times> json) list" where
  "overflow_manifest =
     [(''browser_action'', JObject [(''default_popup'', JString ''index.html?#/popup'')]),
      (''options_page'', JString ''index.html?#/options''),
      (''chrome_url_overrides'',
         JObject [(''newtab'', JString ''index.html?#/tab''), (''weight'', JNumber huge_number)]),
      (''huge'', JNumber huge_number)]"

definition overflow_package :: "(string \<times> json) list" where
  "overflow_package =
     [(''name'', JString ''angular-chrome-extension''),
      (''version'', JString ''1.0.0''),
      (''huge'', JNumber huge_number)]"

definition overflow_world :: world where
  "overflow_world =
     sample_world\<lparr>files :=
       [''/home/dev/my-app/package.json'' \<mapsto> JsonFile overflow_package 4,
        ''/home/dev/my-app/angular/src/manifest.json'' \<mapsto> JsonFile overflow_manifest 4]\<rparr>"

section \<open>Objects and their JSON text\<close>

lemma map_of_rev_distinct:
  "distinct (map fst xs) \<Longrightarrow> map_of (rev xs) = map_of xs"
proof (induction xs)
  case Nil
  show ?case by simp
next
  case (Cons kv xs)
  then have "fst kv \<notin> dom (map_of xs)" by (simp add: dom_map_of_conv_image_fst)
  then have none: "map_of xs (fst kv) = None" by blast
  have "map_of (rev (kv # xs)) = map_of [kv] ++ map_of xs"
    using Cons by simp
  also have "\<dots> = map_of (kv # xs)"
    using none by (cases kv) (auto simp: fun_eq_iff map_add_def split: option.splits)
  finally show ?case .
qed

subsection \<open>Defining a property\<close>

lemma keys_insert_index: "fst ` set (insert_index k v obj) = insert k (fst ` set obj)"
proof (induction k v obj rule: insert_index.induct)
  case (1 k v)
  show ?case by simp
next
  case (2 k v k' v' obj)
  then show ?case
    by (cases "is_index k' \<and> index_of k' < index_of k") auto
qed

lemma map_of_insert_index:
  "k \<notin> fst ` set obj \<Longrightarrow> map_of (insert_index k v obj) = (map_of obj)(k \<mapsto> v)"
proof (induction k v obj rule: insert_index.induct)
  case (1 k v)
  show ?case by simp
next
  case (2 k v k' v' obj)
  then show ?case
    by (cases "is_index k' \<and> index_of k' < index_of k") (auto simp: fun_upd_twist)
qed

lemma distinct_insert_index:
  "k \<notin> fst ` set obj \<Longrightarrow> distinct (map fst obj) \<Longrightarrow>
   distinct (map fst (insert_index k v obj))"
proof (induction k v obj rule: insert_index.induct)
  case (1 k v)
  show ?case by simp
next
  case (2 k v k' v' obj)
  have "k' \<notin> fst ` set (insert_index k v obj)"
    using "2.prems" by (auto simp: keys_insert_index)
  with 2 show ?case
    by (cases "is_index k' \<and> index_of k' < index_of k") auto
qed

lemma map_of_set_prop: "map_of (set_prop k v obj) = (map_of obj)(k \<mapsto> v)"
proof (cases "k \<in> fst ` set obj")
  case True
  then show ?thesis by (simp add: set_prop_def update_conv')
next
  case False
  then have "map_of obj k = None" by (simp add: map_of_eq_None_iff)
  then have "map_of (obj @ [(k, v)]) = (map_of obj)(k \<mapsto> v)"
    by (auto simp: fun_eq_iff map_add_def split: option.splits)
  with False show ?thesis by (simp add: set_prop_def map_of_insert_index)
qed

lemma distinct_set_prop:
  "distinct (map fst obj) \<Longrightarrow> distinct (map fst (set_prop k v obj))"
  by (auto simp: set_prop_def distinct_update distinct_insert_index)

lemma map_of_assign: "map_of (assign t s) = map_of t ++ map_of (rev s)"
  unfolding assign_def
proof (induction s arbitrary: t)
  case Nil
  show ?case by simp
next
  case (Cons kv s)
  obtain k v where kv: "kv = (k, v)" by (cases kv)
  have "map_of (fold (\<lambda>(k, v). set_prop k v) (kv # s) t) =
        map_of (set_prop k v t) ++ map_of (rev s)"
    using Cons.IH [of "set_prop k v t"] by (simp add: kv)
  also have "\<dots> = map_of t ++ map_of (rev (kv # s))"
    by (simp add: kv map_of_set_prop fun_eq_iff map_add_def split: option.splits)
  finally show ?case .
qed

lemma distinct_assign: "distinct (map fst t) \<Longrightarrow> distinct (map fst (assign t s))"
  unfolding assign_def by (induction s arbitrary: t) (auto simp: distinct_set_prop)

subsection \<open>Reading\<close>

lemma JSON_parse_defined: "JSON_parse j \<noteq> Undefined"
  by (cases j) simp_all

lemma map_of_parse_members:
  "map_of (parse_members ms obj) = map_of obj ++ (map_option JSON_parse \<circ> map_of (rev ms))"
proof (induction ms arbitrary: obj)
  case Nil
  show ?case by (simp add: fun_eq_iff map_add_def)
next
  case (Cons kj ms)
  obtain k j where kj: "kj = (k, j)" by (cases kj)
  have "map_of (parse_members (kj # ms) obj) =
        map_of (set_prop k (JSON_parse j) obj) ++ (map_option JSON_parse \<circ> map_of (rev ms))"
    using Cons.IH [of "set_prop k (JSON_parse j) obj"] by (simp add: kj comp_def)
  also have "\<dots> = map_of obj ++ (map_option JSON_parse \<circ> map_of (rev (kj # ms)))"
    by (simp add: kj map_of_set_prop fun_eq_iff map_add_def split: option.splits)
  finally show ?case .
qed

lemma distinct_parse_members:
  "distinct (map fst obj) \<Longrightarrow> distinct (map fst (parse_members ms obj))"
  by (induction ms arbitrary: obj) (auto simp: distinct_set_prop)

lemma distinct_fromJSON: "distinct (map fst (fromJSON members))"
  by (simp add: fromJSON_def distinct_parse_members)

lemma map_of_fromJSON:
  "map_of (fromJSON members) key = map_option JSON_parse (json_member members key)"
  by (simp add: fromJSON_def json_member_def map_of_parse_members map_add_def
      split: option.splits)

lemma get_prop_fromJSON:
  "get_prop (fromJSON members) key =
     (case json_member members key of None \<Rightarrow> Undefined | Some j \<Rightarrow> JSON_parse j)"
  by (simp add: get_prop_def map_of_fromJSON split: option.splits)

subsection \<open>Writing\<close>

lemma keys_stringify: "fst ` set (stringify print obj) \<subseteq> fst ` set obj"
proof (induction obj)
  case Nil
  show ?case by simp
next
  case (Cons kv obj)
  obtain k v where kv: "kv = (k, v)" by (cases kv)
  with Cons show ?case by (cases v) auto
qed

lemma distinct_stringify:
  "distinct (map fst obj) \<Longrightarrow> distinct (map fst (stringify print obj))"
proof (induction obj)
  case Nil
  show ?case by simp
next
  case (Cons kv obj)
  obtain k v where kv: "kv = (k, v)" by (cases kv)
  have "k \<notin> fst ` set (stringify print obj)"
    using Cons.prems keys_stringify [of print obj] by (auto simp: kv)
  with Cons kv show ?case by (cases v) auto
qed

lemma map_of_stringify:
  "distinct (map fst obj) \<Longrightarrow>
   map_of (stringify print obj) key =
     (case map_of obj key of
        None \<Rightarrow> None
      | Some v \<Rightarrow> if v = Undefined then None else Some (to_json print v))"
proof (induction obj)
  case Nil
  show ?case by simp
next
  case (Cons kv obj)
  obtain k v where kv: "kv = (k, v)" by (cases kv)
  have none: "map_of obj k = None"
    using Cons.prems by (simp add: kv map_of_eq_None_iff)
  from Cons kv none show ?case by (cases v) auto
qed

lemma json_member_stringify:
  "distinct (map fst obj) \<Longrightarrow>
   json_member (stringify print obj) key =
     (case map_of obj key of
        None \<Rightarrow> None
      | Some v \<Rightarrow> if v = Undefined then None else Some (to_json print v))"
  by (simp add: json_member_def map_of_rev_distinct distinct_stringify map_of_stringify)

text \<open>What is written for \<open>{ ...current, ...overlay }\<close>, key by key.\<close>

lemma json_member_written:
  "json_member (stringify print (assign (assign [] (fromJSON members)) overlay)) key =
     (case map_of (rev overlay) key of
        Some v \<Rightarrow> if v = Undefined then None else Some (to_json print v)
      | None \<Rightarrow> map_option (\<lambda>j. to_json print (JSON_parse j)) (json_member members key))"
proof -
  have d: "distinct (map fst (assign (assign [] (fromJSON members)) overlay))"
    by (simp add: distinct_assign)
  have "map_of (assign [] (fromJSON members)) key =
          map_option JSON_parse (json_member members key)"
    by (simp add: map_of_assign map_of_rev_distinct distinct_fromJSON map_of_fromJSON)
  then show ?thesis
    by (simp add: json_member_stringify [OF d] map_of_assign [of _ overlay] map_add_def
        JSON_parse_defined split: option.splits)
qed

section \<open>The two rewritten files\<close>

lemma awaited_WriteJson:
  assumes "files w p \<noteq> Some Directory"
  shows "fst (awaited C (WriteJson p obj fmt) w) = Return ()"
    and "files (snd (awaited C (WriteJson p obj fmt) w)) =
           (files w)(p \<mapsto> JsonFile (stringify (number_toString C) obj) (spaces fmt))"
  using assms
  by (auto simp: awaited_def await_def settle_def issue_def split: option.splits node.splits)

lemma require_JsonFile:
  "files w p = Some (JsonFile members ind) \<Longrightarrow>
   require p w = (Return (fromJSON members), w\<lparr>trace := trace w @ [Required p]\<rparr>)"
  by (simp add: require_def)

lemma map_of_rev_literal: "map_of (rev (assign [] props)) = map_of (rev props)"
  by (simp add: map_of_rev_distinct distinct_assign map_of_assign)

lemma writeManifestJson_written:
  assumes "files w (cloneDir @ ''/angular/src/manifest.json'') = Some (JsonFile src ind)"
  shows "fst (writeManifestJson C pkg cloneDir projectName features w) = Return ()"
    and "files (snd (writeManifestJson C pkg cloneDir projectName features w))
           (cloneDir @ ''/angular/src/manifest.json'') =
         Some (JsonFile
           (stringify (number_toString C)
              (manifest_object pkg projectName features (fromJSON src))) 2)"
  using assms
  by (simp_all add: writeManifestJson_def and_then_def require_JsonFile
      awaited_WriteJson jsonFormat_def Let_def)

lemma writePackageJson_written:
  assumes "files w (cloneDir @ ''/package.json'') = Some (JsonFile src ind)"
  shows "fst (writePackageJson C pkg cloneDir projectName w) = Return ()"
    and "files (snd (writePackageJson C pkg cloneDir projectName w)) (cloneDir @ ''/package.json'') =
         Some (JsonFile
           (stringify (number_toString C) (package_object pkg projectName (fromJSON src))) 2)"
  using assms
  by (simp_all add: writePackageJson_def and_then_def require_JsonFile
      awaited_WriteJson jsonFormat_def Let_def)

text \<open>The members of the two written objects, key by key.\<close>

lemma rewritten_fun: "(\<lambda>j. to_json (number_toString C) (JSON_parse j)) = rewritten C"
  by (rule ext) (simp add: rewritten_def)

lemma manifest_member_popup:
  "json_member
     (stringify (number_toString C) (manifest_object pkg projectName features (fromJSON src)))
     ''browser_action'' =
   (if POPUP \<in> set features
    then map_option (rewritten C) (json_member src ''browser_action'') else None)"
  by (cases "json_member src ''browser_action''")
     (simp_all add: json_member_written map_of_rev_literal get_prop_fromJSON rewritten_def
        JSON_parse_defined)

lemma manifest_member_options:
  "json_member
     (stringify (number_toString C) (manifest_object pkg projectName features (fromJSON src)))
     ''options_page'' =
   (if OPTIONS \<in> set features
    then map_option (rewritten C) (json_member src ''options_page'') else None)"
  by (cases "json_member src ''options_page''")
     (simp_all add: json_member_written map_of_rev_literal get_prop_fromJSON rewritten_def
        JSON_parse_defined)

lemma manifest_member_tab:
  "json_member
     (stringify (number_toString C) (manifest_object pkg projectName features (fromJSON src)))
     ''chrome_url_overrides'' =
   (if TAB \<in> set features
    then map_option (rewritten C) (json_member src ''chrome_url_overrides'') else None)"
  by (cases "json_member src ''chrome_url_overrides''")
     (simp_all add: json_member_written map_of_rev_literal get_prop_fromJSON rewritten_def
        JSON_parse_defined)

lemma manifest_member_other:
  assumes "key \<notin> {''name'', ''short_name'', ''description'', ''browser_action'',
                 ''options_page'', ''chrome_url_overrides''}"
  shows "json_member
     (stringify (number_toString C) (manifest_object pkg projectName features (fromJSON src))) key =
   map_option (rewritten C) (json_member src key)"
  using assms by (simp add: json_member_written map_of_rev_literal rewritten_fun)

lemma package_member:
  "json_member
     (stringify (number_toString C) (package_object pkg projectName (fromJSON src))) key =
   (if key = ''author'' then None
    else if key = ''description'' then Some (JString (''Generated with '' @ pkg_name pkg))
    else if key = ''name'' then Some (JString projectName)
    else map_option (rewritten C) (json_member src key))"
  by (simp add: json_member_written rewritten_fun)

text \<open>Values of the samples that are written as they were read.\<close>

lemma round_double_2: "round_double 2 = Finite 2"
  by (simp add: round_double_def floor_log2_def round_half_even_def Let_def bitlen_alt_def)

lemma round_double_overflow: "round_double huge_number = PosInfinity"
  by (simp add: round_double_def huge_number_def)

lemma rewritten_samples:
  "rewritten sample_collaborators (JNumber 2) = JNumber 2"
  "rewritten sample_collaborators (JString s) = JString s"
  "rewritten sample_collaborators (JArray [JString ''tabs'']) = JArray [JString ''tabs'']"
  "rewritten sample_collaborators (JObject [(''newtab'', JString ''index.html?#/tab'')]) =
     JObject [(''newtab'', JString ''index.html?#/tab'')]"
  by (simp_all add: rewritten_def sample_collaborators_def round_double_2 set_prop_def)

lemma rewritten_overflow:
  "rewritten C (JNumber huge_number) = JNull"
  "rewritten C (JObject [(''newtab'', JString ''index.html?#/tab''), (''weight'', JNumber huge_number)]) =
     JObject [(''newtab'', JString ''index.html?#/tab''), (''weight'', JNull)]"
  by (simp_all add: rewritten_def round_double_overflow set_prop_def is_index_def digit_def)

lemma cloned_files:
  "files cloned_world (''/home/dev/my-app'' @ ''/angular/src/manifest.json'') =
     Some (JsonFile sample_manifest 4)"
  "files cloned_world (''/home/dev/my-app'' @ ''/package.json'') =
     Some (JsonFile sample_package 4)"
  by (simp_all add: cloned_world_def sample_world_def template_tree_def)

lemma overflow_files:
  "files overflow_world (''/home/dev/my-app'' @ ''/angular/src/manifest.json'') =
     Some (JsonFile overflow_manifest 4)"
  "files overflow_world (''/home/dev/my-app'' @ ''/package.json'') =
     Some (JsonFile overflow_package 4)"
  by (simp_all add: overflow_world_def sample_world_def)

text \<open>
  C1, as amended. When the manifest that is read has the keys \<^verbatim>\<open>browser_action\<close>,
  \<^verbatim>\<open>options_page\<close> and \<^verbatim>\<open>chrome_url_overrides\<close>, the manifest that is written has each
  of them exactly when its feature (POPUP, OPTIONS, TAB) is selected; a key that is
  cleared is not a member of the written object at all. A key that is kept has the value
  that \<^verbatim>\<open>JSON.stringify\<close> writes for what \<^verbatim>\<open>JSON.parse\<close> read from the source, which is
  the value of the source whenever that value is written as it was read. For the feature
  set \<open>{TAB}\<close> the output has \<^verbatim>\<open>chrome_url_overrides\<close> in this way and neither of the
  other two.
\<close>

theorem writeManifestJson_feature_gating:
  assumes "files w (cloneDir @ ''/angular/src/manifest.json'') = Some (JsonFile src ind)"
    and "json_member src ''browser_action'' \<noteq> None"
    and "json_member src ''options_page'' \<noteq> None"
    and "json_member src ''chrome_url_overrides'' \<noteq> None"
  shows "\<exists>out.
      fst (writeManifestJson C pkg cloneDir projectName features w) = Return () \<and>
      files (snd (writeManifestJson C pkg cloneDir projectName features w))
        (cloneDir @ ''/angular/src/manifest.json'') = Some (JsonFile out 2) \<and>
      (json_member out ''browser_action'' \<noteq> None \<longleftrightarrow> POPUP \<in> set features) \<and>
      (json_member out ''options_page'' \<noteq> None \<longleftrightarrow> OPTIONS \<in> set features) \<and>
      (json_member out ''chrome_url_overrides'' \<noteq> None \<longleftrightarrow> TAB \<in> set features) \<and>
      (POPUP \<in> set features \<longrightarrow>
         json_member out ''browser_action'' =
           map_option (rewritten C) (json_member src ''browser_action'')) \<and>
      (OPTIONS \<in> set features \<longrightarrow>
         json_member out ''options_page'' =
           map_option (rewritten C) (json_member src ''options_page'')) \<and>
      (TAB \<in> set features \<longrightarrow>
         json_member out ''chrome_url_overrides'' =
           map_option (rewritten C) (json_member src ''chrome_url_overrides'')) \<and>
      (\<forall>key v. key \<in> {''browser_action'', ''options_page'', ''chrome_url_overrides''} \<and>
           json_member out key \<noteq> None \<and> json_member src key = Some v \<and> rewritten C v = v \<longrightarrow>
           json_member out key = Some v) \<and>
      (set features = {TAB} \<longrightarrow>
         json_member out ''chrome_url_overrides'' =
           map_option (rewritten C) (json_member src ''chrome_url_overrides'') \<and>
         json_member out ''browser_action'' = None \<and>
         json_member out ''options_page'' = None)"
proof -
  define out where
    "out = stringify (number_toString C) (manifest_object pkg projectName features (fromJSON src))"
  have ret: "fst (writeManifestJson C pkg cloneDir projectName features w) = Return ()"
    by (rule writeManifestJson_written(1) [OF assms(1)])
  have written: "files (snd (writeManifestJson C pkg cloneDir projectName features w))
        (cloneDir @ ''/angular/src/manifest.json'') = Some (JsonFile out 2)"
    unfolding out_def by (rule writeManifestJson_written(2) [OF assms(1)])
  have popup: "json_member out ''browser_action'' =
      (if POPUP \<in> set features
       then map_option (rewritten C) (json_member src ''browser_action'') else None)"
    and options: "json_member out ''options_page'' =
      (if OPTIONS \<in> set features
       then map_option (rewritten C) (json_member src ''options_page'') else None)"
    and tab: "json_member out ''chrome_url_overrides'' =
      (if TAB \<in> set features
       then map_option (rewritten C) (json_member src ''chrome_url_overrides'') else None)"
    unfolding out_def
    by (rule manifest_member_popup manifest_member_options manifest_member_tab)+
  have gated:
    "(json_member out ''browser_action'' \<noteq> None \<longleftrightarrow> POPUP \<in> set features)"
    "(json_member out ''options_page'' \<noteq> None \<longleftrightarrow> OPTIONS \<in> set features)"
    "(json_member out ''chrome_url_overrides'' \<noteq> None \<longleftrightarrow> TAB \<in> set features)"
    using assms(2-4) by (auto simp: popup options tab)
  have kept: "\<forall>key v. key \<in> {''browser_action'', ''options_page'', ''chrome_url_overrides''} \<and>
           json_member out key \<noteq> None \<and> json_member src key = Some v \<and> rewritten C v = v \<longrightarrow>
           json_member out key = Some v"
    by (auto simp: popup options tab split: if_splits)
  have only_tab: "set features = {TAB} \<longrightarrow>
         json_member out ''chrome_url_overrides'' =
           map_option (rewritten C) (json_member src ''chrome_url_overrides'') \<and>
         json_member out ''browser_action'' = None \<and>
         json_member out ''options_page'' = None"
    by (simp add: popup options tab)
  show ?thesis
    using ret written gated kept only_tab
    by (intro exI [where x = out]) (simp add: popup options tab)
qed

theorem writeManifestJson_feature_gating_witness:
  "\<exists>out.
      fst (writeManifestJson sample_collaborators sample_pkg ''/home/dev/my-app'' ''my-app'' [TAB]
             cloned_world) = Return () \<and>
      files (snd (writeManifestJson sample_collaborators sample_pkg ''/home/dev/my-app'' ''my-app''
                    [TAB] cloned_world))
        ''/home/dev/my-app/angular/src/manifest.json'' = Some (JsonFile out 2) \<and>
      json_member out ''chrome_url_overrides'' =
        Some (JObject [(''newtab'', JString ''index.html?#/tab'')]) \<and>
      json_member out ''browser_action'' = None \<and>
      json_member out ''options_page'' = None"
proof -
  have keys: "json_member sample_manifest ''browser_action'' \<noteq> None"
    "json_member sample_manifest ''options_page'' \<noteq> None"
    "json_member sample_manifest ''chrome_url_overrides'' \<noteq> None"
    by (simp_all add: sample_manifest_def json_member_def)
  have src: "json_member sample_manifest ''chrome_url_overrides'' =
      Some (JObject [(''newtab'', JString ''index.html?#/tab'')])"
    by (simp add: sample_manifest_def json_member_def)
  from writeManifestJson_feature_gating
    [OF cloned_files(1) keys, of sample_collaborators sample_pkg "''my-app''" "[TAB]"]
  obtain out where
    "fst (writeManifestJson sample_collaborators sample_pkg ''/home/dev/my-app'' ''my-app'' [TAB]
            cloned_world) = Return ()"
    "files (snd (writeManifestJson sample_collaborators sample_pkg ''/home/dev/my-app'' ''my-app''
                   [TAB] cloned_world)) (''/home/dev/my-app'' @ ''/angular/src/manifest.json'') =
       Some (JsonFile out 2)"
    "set [TAB] = {TAB} \<longrightarrow>
       json_member out ''chrome_url_overrides'' =
         map_option (rewritten sample_collaborators)
           (json_member sample_manifest ''chrome_url_overrides'') \<and>
       json_member out ''browser_action'' = None \<and>
       json_member out ''options_page'' = None"
    by (elim exE conjE) (rule that, assumption+)
  then show ?thesis
    by (intro exI [where x = out]) (simp add: src rewritten_samples)
qed

text \<open>
  C1 as it is stated fails: a kept key is not always copied from the source. With the
  feature set \<open>{TAB}\<close> and a \<^verbatim>\<open>chrome_url_overrides\<close> that holds the number \<^verbatim>\<open>1e400\<close>, the
  written \<^verbatim>\<open>chrome_url_overrides\<close> holds \<^verbatim>\<open>null\<close> in its place.
\<close>

theorem writeManifestJson_kept_key_counterexample:
  "json_member overflow_manifest ''chrome_url_overrides'' =
     Some (JObject [(''newtab'', JString ''index.html?#/tab''), (''weight'', JNumber huge_number)]) \<and>
   json_member
     (members_at
        (snd (writeManifestJson sample_collaborators sample_pkg ''/home/dev/my-app'' ''my-app''
                [TAB] overflow_world))
        (''/home/dev/my-app'' @ ''/angular/src/manifest.json''))
     ''chrome_url_overrides'' =
     Some (JObject [(''newtab'', JString ''index.html?#/tab''), (''weight'', JNull)])"
proof -
  let ?out = "stringify (number_toString sample_collaborators)
                (manifest_object sample_pkg ''my-app'' [TAB] (fromJSON overflow_manifest))"
  have src: "json_member overflow_manifest ''chrome_url_overrides'' =
     Some (JObject [(''newtab'', JString ''index.html?#/tab''), (''weight'', JNumber huge_number)])"
    by (simp add: overflow_manifest_def json_member_def)
  have "members_at
          (snd (writeManifestJson sample_collaborators sample_pkg ''/home/dev/my-app'' ''my-app''
                  [TAB] overflow_world))
          (''/home/dev/my-app'' @ ''/angular/src/manifest.json'') = ?out"
    unfolding members_at_def writeManifestJson_written(2) [OF overflow_files(1)]
    by (simp only: option.case node.case)
  moreover have "json_member ?out ''chrome_url_overrides'' =
      (if TAB \<in> set [TAB]
       then map_option (rewritten sample_collaborators)
              (json_member overflow_manifest ''chrome_url_overrides'')
       else None)"
    by (rule manifest_member_tab)
  ultimately show ?thesis
    by (simp add: src rewritten_overflow)
qed

text \<open>
  C2, as amended. Every key other than \<^verbatim>\<open>name\<close>, \<^verbatim>\<open>short_name\<close>, \<^verbatim>\<open>description\<close> and
  the three gated keys is in the written manifest exactly when it is in the source
  manifest, for every source manifest and every feature set, with the value that
  \<^verbatim>\<open>JSON.stringify\<close> writes for what \<^verbatim>\<open>JSON.parse\<close> read from the source: the original
  value whenever that value is written as it was read.
\<close>

theorem writeManifestJson_unrelated_keys:
  assumes "files w (cloneDir @ ''/angular/src/manifest.json'') = Some (JsonFile src ind)"
    and "key \<notin> {''name'', ''short_name'', ''description'', ''browser_action'',
                 ''options_page'', ''chrome_url_overrides''}"
  shows "\<exists>out.
      fst (writeManifestJson C pkg cloneDir projectName features w) = Return () \<and>
      files (snd (writeManifestJson C pkg cloneDir projectName features w))
        (cloneDir @ ''/angular/src/manifest.json'') = Some (JsonFile out 2) \<and>
      json_member out key = map_option (rewritten C) (json_member src key) \<and>
      (\<forall>v. json_member src key = Some v \<and> rewritten C v = v \<longrightarrow> json_member out key = Some v)"
proof -
  define out where
    "out = stringify (number_toString C) (manifest_object pkg projectName features (fromJSON src))"
  have "json_member out key = map_option (rewritten C) (json_member src key)"
    unfolding out_def by (rule manifest_member_other [OF assms(2)])
  moreover have "files (snd (writeManifestJson C pkg cloneDir projectName features w))
        (cloneDir @ ''/angular/src/manifest.json'') = Some (JsonFile out 2)"
    unfolding out_def by (rule writeManifestJson_written(2) [OF assms(1)])
  ultimately show ?thesis
    using writeManifestJson_written(1) [OF assms(1)]
    by (intro exI [where x = out]) simp
qed

theorem writeManifestJson_unrelated_keys_witness:
  "\<exists>out.
      fst (writeManifestJson sample_collaborators sample_pkg ''/home/dev/my-app'' ''my-app''
             [POPUP, TAB] cloned_world) = Return () \<and>
      files (snd (writeManifestJson sample_collaborators sample_pkg ''/home/dev/my-app'' ''my-app''
                    [POPUP, TAB] cloned_world))
        ''/home/dev/my-app/angular/src/manifest.json'' = Some (JsonFile out 2) \<and>
      json_member out ''manifest_version'' = Some (JNumber 2)"
proof -
  have key: "''manifest_version'' \<notin> {''name'', ''short_name'', ''description'',
                 ''browser_action'', ''options_page'', ''chrome_url_overrides''}"
    by simp
  have src: "json_member sample_manifest ''manifest_version'' = Some (JNumber 2)"
    by (simp add: sample_manifest_def json_member_def)
  from writeManifestJson_unrelated_keys
    [OF cloned_files(1) key, of sample_collaborators sample_pkg "''my-app''" "[POPUP, TAB]"]
  obtain out where
    "fst (writeManifestJson sample_collaborators sample_pkg ''/home/dev/my-app'' ''my-app''
            [POPUP, TAB] cloned_world) = Return ()"
    "files (snd (writeManifestJson sample_collaborators sample_pkg ''/home/dev/my-app'' ''my-app''
                   [POPUP, TAB] cloned_world))
       (''/home/dev/my-app'' @ ''/angular/src/manifest.json'') = Some (JsonFile out 2)"
    "\<forall>v. json_member sample_manifest ''manifest_version'' = Some v \<and>
         rewritten sample_collaborators v = v \<longrightarrow>
         json_member out ''manifest_version'' = Some v"
    by (elim exE conjE) (rule that, assumption+)
  then show ?thesis
    by (intro exI [where x = out]) (simp add: src rewritten_samples)
qed

text \<open>
  C2 as it is stated fails: a manifest with the member \<^verbatim>\<open>"huge": 1e400\<close>, a key that
  the service does not know, is written back with \<^verbatim>\<open>"huge": null\<close>.
\<close>

theorem writeManifestJson_unrelated_key_counterexample:
  "json_member overflow_manifest ''huge'' = Some (JNumber huge_number) \<and>
   json_member
     (members_at
        (snd (writeManifestJson sample_collaborators sample_pkg ''/home/dev/my-app'' ''my-app''
                [POPUP] overflow_world))
        (''/home/dev/my-app'' @ ''/angular/src/manifest.json''))
     ''huge'' = Some JNull"
proof -
  let ?out = "stringify (number_toString sample_collaborators)
                (manifest_object sample_pkg ''my-app'' [POPUP] (fromJSON overflow_manifest))"
  have src: "json_member overflow_manifest ''huge'' = Some (JNumber huge_number)"
    by (simp add: overflow_manifest_def json_member_def)
  have key: "''huge'' \<notin> {''name'', ''short_name'', ''description'', ''browser_action'',
                 ''options_page'', ''chrome_url_overrides''}"
    by simp
  have "members_at
          (snd (writeManifestJson sample_collaborators sample_pkg ''/home/dev/my-app'' ''my-app''
                  [POPUP] overflow_world))
          (''/home/dev/my-app'' @ ''/angular/src/manifest.json'') = ?out"
    unfolding members_at_def writeManifestJson_written(2) [OF overflow_files(1)]
    by (simp only: option.case node.case)
  moreover have "json_member ?out ''huge'' =
      map_option (rewritten sample_collaborators) (json_member overflow_manifest ''huge'')"
    by (rule manifest_member_other [OF key])
  ultimately show ?thesis
    by (simp add: src rewritten_overflow)
qed

text \<open>
  C3, as amended. For every package.json object that is there and every project name,
  the package.json that is written has the project name as \<^verbatim>\<open>name\<close>, "Generated with"
  and the tool's package name as \<^verbatim>\<open>description\<close> and no \<^verbatim>\<open>author\<close>; every other key is
  there exactly when it was there, with the value that \<^verbatim>\<open>JSON.stringify\<close> writes for what
  \<^verbatim>\<open>JSON.parse\<close> read: the original value whenever that value is written as it was read.
  The file is written with an indentation of 2.
\<close>

theorem writePackageJson_rewrite:
  assumes "files w (cloneDir @ ''/package.json'') = Some (JsonFile src ind)"
  shows "\<exists>out.
      fst (writePackageJson C pkg cloneDir projectName w) = Return () \<and>
      files (snd (writePackageJson C pkg cloneDir projectName w)) (cloneDir @ ''/package.json'') =
        Some (JsonFile out (spaces jsonFormat)) \<and>
      spaces jsonFormat = 2 \<and>
      json_member out ''name'' = Some (JString projectName) \<and>
      json_member out ''description'' = Some (JString (''Generated with '' @ pkg_name pkg)) \<and>
      json_member out ''author'' = None \<and>
      (\<forall>key. key \<notin> {''name'', ''description'', ''author''} \<longrightarrow>
         json_member out key = map_option (rewritten C) (json_member src key)) \<and>
      (\<forall>key v. key \<notin> {''name'', ''description'', ''author''} \<and>
         json_member src key = Some v \<and> rewritten C v = v \<longrightarrow> json_member out key = Some v)"
proof -
  define out where
    "out = stringify (number_toString C) (package_object pkg projectName (fromJSON src))"
  have member: "json_member out key =
      (if key = ''author'' then None
       else if key = ''description'' then Some (JString (''Generated with '' @ pkg_name pkg))
       else if key = ''name'' then Some (JString projectName)
       else map_option (rewritten C) (json_member src key))" for key
    unfolding out_def by (rule package_member)
  have written: "files (snd (writePackageJson C pkg cloneDir projectName w))
      (cloneDir @ ''/package.json'') = Some (JsonFile out (spaces jsonFormat))"
    unfolding out_def using writePackageJson_written(2) [OF assms, of C pkg projectName]
    by (simp add: jsonFormat_def)
  have others: "\<forall>key. key \<notin> {''name'', ''description'', ''author''} \<longrightarrow>
         json_member out key = map_option (rewritten C) (json_member src key)"
    by (simp add: member)
  then have unchanged: "\<forall>key v. key \<notin> {''name'', ''description'', ''author''} \<and>
         json_member src key = Some v \<and> rewritten C v = v \<longrightarrow> json_member out key = Some v"
    by simp
  have fixed: "json_member out ''name'' = Some (JString projectName)"
    "json_member out ''description'' = Some (JString (''Generated with '' @ pkg_name pkg))"
    "json_member out ''author'' = None"
    by (simp_all add: member)
  show ?thesis
    using writePackageJson_written(1) [OF assms, of C pkg projectName] written others unchanged
      fixed
    by (intro exI [where x = out]) (simp add: jsonFormat_def)
qed

theorem writePackageJson_rewrite_witness:
  "\<exists>out.
      fst (writePackageJson sample_collaborators sample_pkg ''/home/dev/my-app'' ''my-app''
             cloned_world) = Return () \<and>
      files (snd (writePackageJson sample_collaborators sample_pkg ''/home/dev/my-app'' ''my-app''
                    cloned_world))
        ''/home/dev/my-app/package.json'' = Some (JsonFile out 2) \<and>
      json_member out ''name'' = Some (JString ''my-app'') \<and>
      json_member out ''description'' = Some (JString ''Generated with acx'') \<and>
      json_member out ''author'' = None \<and>
      json_member out ''version'' = Some (JString ''1.0.0'')"
proof -
  have src: "json_member sample_package ''version'' = Some (JString ''1.0.0'')"
    by (simp add: sample_package_def json_member_def)
  from writePackageJson_rewrite [OF cloned_files(2), of sample_collaborators sample_pkg "''my-app''"]
  obtain out where
    "fst (writePackageJson sample_collaborators sample_pkg ''/home/dev/my-app'' ''my-app''
            cloned_world) = Return ()"
    "files (snd (writePackageJson sample_collaborators sample_pkg ''/home/dev/my-app'' ''my-app''
                   cloned_world)) (''/home/dev/my-app'' @ ''/package.json'') =
       Some (JsonFile out (spaces jsonFormat))"
    "spaces jsonFormat = 2"
    "json_member out ''name'' = Some (JString ''my-app'')"
    "json_member out ''description'' = Some (JString (''Generated with '' @ pkg_name sample_pkg))"
    "json_member out ''author'' = None"
    "\<forall>key v. key \<notin> {''name'', ''description'', ''author''} \<and>
       json_member sample_package key = Some v \<and> rewritten sample_collaborators v = v \<longrightarrow>
       json_member out key = Some v"
    by (elim exE conjE) (rule that, assumption+)
  then show ?thesis
    by (intro exI [where x = out]) (simp add: sample_pkg_def src rewritten_samples)
qed

text \<open>
  C3 as it is stated fails: a package.json with the member \<^verbatim>\<open>"huge": 1e400\<close> is
  written back with \<^verbatim>\<open>"huge": null\<close>.
\<close>

theorem writePackageJson_other_key_counterexample:
  "json_member overflow_package ''huge'' = Some (JNumber huge_number) \<and>
   json_member
     (members_at
        (snd (writePackageJson sample_collaborators sample_pkg ''/home/dev/my-app'' ''my-app''
                overflow_world))
        (''/home/dev/my-app'' @ ''/package.json''))
     ''huge'' = Some JNull"
proof -
  let ?out = "stringify (number_toString sample_collaborators)
                (package_object sample_pkg ''my-app'' (fromJSON overflow_package))"
  have src: "json_member overflow_package ''huge'' = Some (JNumber huge_number)"
    by (simp add: overflow_package_def json_member_def)
  have "members_at
          (snd (writePackageJson sample_collaborators sample_pkg ''/home/dev/my-app'' ''my-app''
                  overflow_world))
          (''/home/dev/my-app'' @ ''/package.json'') = ?out"
    unfolding members_at_def writePackageJson_written(2) [OF overflow_files(2)]
    by (simp only: option.case node.case)
  moreover have "json_member ?out ''huge'' =
      (if ''huge'' = ''author'' then None
       else if ''huge'' = ''description''
       then Some (JString (''Generated with '' @ pkg_name sample_pkg))
       else if ''huge'' = ''name'' then Some (JString ''my-app'')
       else map_option (rewritten sample_collaborators) (json_member overflow_package ''huge''))"
    by (rule package_member)
  ultimately show ?thesis
    by (simp add: src rewritten_overflow)
qed

section \<open>The validators\<close>

text \<open>The pattern of the code accepts exactly the names the spec describes in words.\<close>

lemma alphabet_codes:
  "map of_char ''abcdefghijklmnopqrstuvwxyz0123456789-_'' =
     [97..<123] @ [48..<58] @ [45, 95 :: nat]"
  by code_simp

lemma in_class_projectNameMatch:
  "in_class projectNameMatch c \<longleftrightarrow> c \<in> set ''abcdefghijklmnopqrstuvwxyz0123456789-_''"
proof -
  define n :: nat where "n = of_char c"
  define alphabet where "alphabet = ''abcdefghijklmnopqrstuvwxyz0123456789-_''"
  have le1: "\<And>d. (d \<le> c) = (of_char d \<le> n)" and le2: "\<And>d. (c \<le> d) = (n \<le> of_char d)"
    and eq: "\<And>d. (c = d) = (n = of_char d)"
    by (simp_all add: n_def less_eq_char_def)
  have "in_class projectNameMatch c \<longleftrightarrow>
        (97 \<le> n \<and> n \<le> 122) \<or> (48 \<le> n \<and> n \<le> 57) \<or> n = 45 \<or> n = 95"
    by (simp add: in_class_def projectNameMatch_def le1 le2 eq)
  also have "\<dots> \<longleftrightarrow> n \<in> {97..<123} \<or> n \<in> {48..<58} \<or> n = 45 \<or> n = 95"
    unfolding atLeastLessThan_iff by linarith
  also have "\<dots> \<longleftrightarrow> n \<in> set ([97..<123] @ [48..<58] @ [45, 95])"
    by (simp only: set_append set_upt Un_iff list.set insert_iff empty_iff disj_ac simp_thms)
  also have "\<dots> \<longleftrightarrow> n \<in> of_char ` set alphabet"
    unfolding alphabet_def alphabet_codes [symmetric] by (simp only: set_map)
  also have "\<dots> \<longleftrightarrow> c \<in> set alphabet"
    unfolding n_def by (rule inj_image_mem_iff) (simp add: inj_on_def)
  finally show ?thesis
    unfolding alphabet_def .
qed

lemma invalidProjectName_iff: "invalidProjectName s \<longleftrightarrow> \<not> spec_valid_name s"
proof -
  have "in_class projectNameMatch = (\<lambda>c. c \<in> set ''abcdefghijklmnopqrstuvwxyz0123456789-_'')"
    by (rule ext) (rule in_class_projectNameMatch)
  then show ?thesis
    by (simp only: invalidProjectName_def test_def spec_valid_name_def list_all_iff subset_eq)
qed

text \<open>
  C4, as amended. \<^verbatim>\<open>validateName\<close> logs the invalid-name line and exits with status 1
  exactly for the names that do not match the pattern; for a name that matches, it logs
  the already-exists line and exits with status 1 exactly when something, a directory
  or a file, is at \<^verbatim>\<open><cwd>/<name>\<close>; otherwise it returns and leaves the process as
  it was.
\<close>

theorem validateName_outcome:
  "validateName projectName w =
     (if \<not> spec_valid_name projectName
      then (Exit 1,
            w\<lparr>trace := trace w @
               [LogError (Text ''Invalid project name, must match: /^[a-z0-9-_]+$/'')]\<rparr>)
      else if files w (cwd w @ ''/'' @ projectName) \<noteq> None
      then (Exit 1,
            w\<lparr>trace := trace w @
               [LogError (Text (''Project '' @ [CHR 0x27] @ projectName @ [CHR 0x27] @
                                '' already exists''))]\<rparr>)
      else (Return (), w))"
proof (cases "spec_valid_name projectName")
  case False
  then have "invalidProjectName projectName"
    by (simp add: invalidProjectName_iff)
  with False show ?thesis
    by (simp add: validateName_def if_then_def log_error_def process_exit_def
        projectNameMatch_toString_def)
next
  case True
  then have "\<not> invalidProjectName projectName"
    by (simp add: invalidProjectName_iff)
  with True show ?thesis
    by (simp add: validateName_def if_then_def log_error_def process_exit_def existsAsync_def
        getProjectDir_def)
qed

lemma spec_valid_my_app: "spec_valid_name ''my-app''"
  by (simp add: spec_valid_name_def)

lemma not_spec_valid_My_App: "\<not> spec_valid_name ''My App''"
  by (simp add: spec_valid_name_def)

theorem validateName_outcome_witness:
  "validateName ''My App'' sample_world =
     (Exit 1,
      sample_world\<lparr>trace :=
        [LogError (Text ''Invalid project name, must match: /^[a-z0-9-_]+$/'')]\<rparr>) \<and>
   validateName ''my-app'' sample_world = (Return (), sample_world) \<and>
   validateName ''my-app'' cloned_world =
     (Exit 1,
      cloned_world\<lparr>trace :=
        [LogError (Text (''Project '' @ [CHR 0x27] @ ''my-app'' @ [CHR 0x27] @
                         '' already exists''))]\<rparr>)"
  using validateName_outcome [of "''My App''" sample_world]
    validateName_outcome [of "''my-app''" sample_world]
    validateName_outcome [of "''my-app''" cloned_world]
  by (simp add: spec_valid_my_app not_spec_valid_My_App sample_world_def cloned_world_def
      template_tree_def)

text \<open>
  C4 as it is stated fails: with a plain file named \<^verbatim>\<open>my-app\<close> in the working
  directory there is no directory \<^verbatim>\<open>my-app\<close>, the name matches the pattern, and
  \<^verbatim>\<open>validateName\<close> still logs that the project exists and exits with status 1.
\<close>

theorem validateName_plain_file_counterexample:
  "\<not> invalidProjectName ''my-app'' \<and>
   files file_world (getProjectDir file_world ''my-app'') \<noteq> Some Directory \<and>
   validateName ''my-app'' file_world =
     (Exit 1,
      file_world\<lparr>trace :=
        [LogError (Text (''Project '' @ [CHR 0x27] @ ''my-app'' @ [CHR 0x27] @
                         '' already exists''))]\<rparr>)"
proof -
  have "\<not> invalidProjectName ''my-app''"
    by (simp add: invalidProjectName_iff spec_valid_my_app)
  moreover have "files file_world (getProjectDir file_world ''my-app'') = Some OtherFile"
    by (simp add: file_world_def sample_world_def getProjectDir_def)
  ultimately show ?thesis
    by (simp add: validateName_def if_then_def log_error_def process_exit_def existsAsync_def
        file_world_def sample_world_def)
qed

text \<open>
  C5. \<^verbatim>\<open>validateFeatures\<close> logs an error and exits with status 1 exactly when the list
  of features is empty; for every other list it returns and leaves the process as it
  was.
\<close>

theorem validateFeatures_outcome:
  "validateFeatures features w =
     (if features = []
      then (Exit 1, w\<lparr>trace := trace w @ [LogError (Text ''You must select at least 1 feature'')]\<rparr>)
      else (Return (), w))"
  by (simp add: validateFeatures_def if_then_def log_error_def process_exit_def)

theorem validateFeatures_outcome_witness:
  "validateFeatures [] sample_world =
     (Exit 1, sample_world\<lparr>trace := [LogError (Text ''You must select at least 1 feature'')]\<rparr>) \<and>
   validateFeatures [POPUP] sample_world = (Return (), sample_world) \<and>
   validateFeatures [TAB, TAB, OPTIONS] sample_world = (Return (), sample_world)"
  using validateFeatures_outcome [of "[]" sample_world]
    validateFeatures_outcome [of "[POPUP]" sample_world]
    validateFeatures_outcome [of "[TAB, TAB, OPTIONS]" sample_world]
  by (simp add: sample_world_def)

section \<open>Installing the dependencies\<close>

text \<open>
  C8. When the project directory is there and the child command \<^verbatim>\<open>npm ci\<close> fails with
  an error, whatever the error is, \<^verbatim>\<open>install\<close> catches it: the error is logged, the
  spinner is stopped, and \<^verbatim>\<open>install\<close> returns; it neither throws nor exits.
\<close>

theorem install_catches_exec_failure:
  assumes "files w (getProjectDir w projectName) = Some Directory"
    and "exec C ''npm ci'' (getProjectDir w projectName) (files w) = (Some e, fs)"
  shows "fst (install C projectName w) = Return () \<and>
         trace (snd (install C projectName w)) =
           trace w @
           [SpinnerStart ''installing dependencies...'',
            Issued (Exec ''npm ci''),
            Settled (Exec ''npm ci'') (Some e),
            LogError (Caught e),
            SpinnerStop None] \<and>
         files (snd (install C projectName w)) = fs \<and>
         cwd (snd (install C projectName w)) = getProjectDir w projectName"
  using assms
  by (simp add: install_def process_chdir_def try_catch_def spinner_start_def execAsync_def
      awaited_def await_def settle_def issue_def log_error_def spinner_stop_def)

theorem install_catches_exec_failure_witness:
  "fst (install sample_collaborators ''my-app'' cloned_world) = Return () \<and>
   trace (snd (install sample_collaborators ''my-app'' cloned_world)) =
     [SpinnerStart ''installing dependencies...'',
      Issued (Exec ''npm ci''),
      Settled (Exec ''npm ci'') (Some (Failure ''npm ci exited with code 1'')),
      LogError (Caught (Failure ''npm ci exited with code 1'')),
      SpinnerStop None] \<and>
   cwd (snd (install sample_collaborators ''my-app'' cloned_world)) = ''/home/dev/my-app''"
proof -
  have dir: "files cloned_world (getProjectDir cloned_world ''my-app'') = Some Directory"
    by (simp add: cloned_world_def sample_world_def template_tree_def getProjectDir_def)
  have failing: "exec sample_collaborators ''npm ci'' (getProjectDir cloned_world ''my-app'')
          (files cloned_world) =
        (Some (Failure ''npm ci exited with code 1''), files cloned_world)"
    by (simp add: sample_collaborators_def)
  have "trace cloned_world = []" "getProjectDir cloned_world ''my-app'' = ''/home/dev/my-app''"
    by (simp_all add: cloned_world_def sample_world_def getProjectDir_def)
  with install_catches_exec_failure [OF dir failing] show ?thesis
    by simp
qed

text \<open>
  C10. \<^verbatim>\<open>install\<close> changes the working directory before its \<^verbatim>\<open>try\<close>: when the
  project directory does not exist, the error of \<^verbatim>\<open>process.chdir\<close> leaves \<^verbatim>\<open>install\<close>
  as it is thrown. Nothing is logged, the spinner is not touched, the child command is
  not run: the process is as it was.
\<close>

theorem install_chdir_failure_escapes:
  assumes "files w (getProjectDir w projectName) = None"
  shows "install C projectName w = (Throw (ENOENT (getProjectDir w projectName)), w)"
  using assms by (simp add: install_def process_chdir_def)

theorem install_chdir_failure_escapes_witness:
  "install sample_collaborators ''my-app'' sample_world =
     (Throw (ENOENT ''/home/dev/my-app''), sample_world)"
proof -
  have "files sample_world (getProjectDir sample_world ''my-app'') = None"
    by (simp add: sample_world_def)
  from install_chdir_failure_escapes [OF this, of sample_collaborators] show ?thesis
    by (simp add: getProjectDir_def sample_world_def)
qed

text \<open>A plain file in the place of the project directory: the error escapes in the same way.\<close>

lemma install_chdir_not_a_directory:
  assumes "files w (getProjectDir w projectName) = Some node" and "node \<noteq> Directory"
  shows "install C projectName w = (Throw (ENOTDIR (getProjectDir w projectName)), w)"
  using assms by (cases node) (simp_all add: install_def process_chdir_def)

section \<open>Generating a project\<close>

lemmas service_defs =
  generate_def cleanDir_def writePackageJson_def writeManifestJson_def require_def
  try_catch_def and_then_def awaited_def await_def settle_def issue_def
  spinner_start_def spinner_stop_def log_error_def getProjectDir_def
  deleteDirs_def deleteFiles_def jsonFormat_def Let_def

lemma logged_errors_append:
  "logged_errors (xs @ ys) = logged_errors xs @ logged_errors ys"
  by (induction xs rule: logged_errors.induct) simp_all

text \<open>
  \<^verbatim>\<open>cleanDir\<close> starts the three removals and waits for none of them: the two elements
  that \<^verbatim>\<open>Promise.all\<close> is given are arrays, not promises.
\<close>

lemma cleanDir_awaits_nothing:
  "cleanDir C cloneDir w =
     (Return (),
      w\<lparr>pending := pending w @
           [Remove (cloneDir @ ''/.git''), Remove (cloneDir @ ''/cli''),
            Unlink (cloneDir @ ''/README.md'')],
        trace := trace w @
           [Issued (Remove (cloneDir @ ''/.git'')), Issued (Remove (cloneDir @ ''/cli'')),
            Issued (Unlink (cloneDir @ ''/README.md''))]\<rparr>)"
  by (simp add: cleanDir_def deleteDirs_def deleteFiles_def issue_def)

text \<open>
  The run of \<^verbatim>\<open>generate\<close> when the clone succeeds and leaves the two JSON files:
  whatever else the clone left or did not leave, all steps are taken.
\<close>

lemma generate_completes:
  assumes "git_clone C (repo_url (pkg_repository pkg)) (getProjectDir w projectName) (files w) =
             (None, fs)"
    and "fs (getProjectDir w projectName @ ''/package.json'') = Some (JsonFile p i)"
    and "fs (getProjectDir w projectName @ ''/angular/src/manifest.json'') = Some (JsonFile m j)"
  shows "fst (generate C pkg projectName features w) = Return ()"
    and "trace (snd (generate C pkg projectName features w)) =
           trace w @
           [SpinnerStart ''creating extension...'',
            Issued (Clone (repo_url (pkg_repository pkg)) (getProjectDir w projectName)),
            Settled (Clone (repo_url (pkg_repository pkg)) (getProjectDir w projectName)) None,
            Issued (Remove (getProjectDir w projectName @ ''/.git'')),
            Issued (Remove (getProjectDir w projectName @ ''/cli'')),
            Issued (Unlink (getProjectDir w projectName @ ''/README.md'')),
            Required (getProjectDir w projectName @ ''/package.json''),
            Issued (WriteJson (getProjectDir w projectName @ ''/package.json'')
                      (package_object pkg projectName (fromJSON p)) jsonFormat),
            Settled (WriteJson (getProjectDir w projectName @ ''/package.json'')
                       (package_object pkg projectName (fromJSON p)) jsonFormat) None,
            Required (getProjectDir w projectName @ ''/angular/src/manifest.json''),
            Issued (WriteJson (getProjectDir w projectName @ ''/angular/src/manifest.json'')
                      (manifest_object pkg projectName features (fromJSON m)) jsonFormat),
            Settled (WriteJson (getProjectDir w projectName @ ''/angular/src/manifest.json'')
                       (manifest_object pkg projectName features (fromJSON m)) jsonFormat) None,
            SpinnerStop (Some (''done! created extension in: '' @ getProjectDir w projectName))]"
    and "files (snd (generate C pkg projectName features w)) =
           fs(getProjectDir w projectName @ ''/package.json'' \<mapsto>
                JsonFile (stringify (number_toString C) (package_object pkg projectName (fromJSON p))) 2,
              getProjectDir w projectName @ ''/angular/src/manifest.json'' \<mapsto>
                JsonFile (stringify (number_toString C)
                            (manifest_object pkg projectName features (fromJSON m))) 2)"
    and "cwd (snd (generate C pkg projectName features w)) = cwd w"
    and "pending w = [] \<Longrightarrow>
         pending (snd (generate C pkg projectName features w)) =
           [Remove (getProjectDir w projectName @ ''/.git''),
            Remove (getProjectDir w projectName @ ''/cli''),
            Unlink (getProjectDir w projectName @ ''/README.md'')]"
  using assms by (simp_all add: service_defs)

text \<open>
  When the clone did not leave a README.md, the pending \<^verbatim>\<open>unlink\<close> is rejected once it
  runs. Nothing awaits that promise, so the rejection reaches no handler of the service:
  a runtime that only warns goes on, a runtime that ends the process on such a rejection
  exits with status 1.
\<close>

lemma unlink_rejection_unhandled:
  assumes "git_clone C (repo_url (pkg_repository pkg)) (getProjectDir w projectName) (files w) =
             (None, fs)"
    and "fs (getProjectDir w projectName @ ''/package.json'') = Some (JsonFile p i)"
    and "fs (getProjectDir w projectName @ ''/angular/src/manifest.json'') = Some (JsonFile m j)"
    and "pending w = []"
    and "fs (getProjectDir w projectName @ ''/README.md'') = None"
  shows "fst (settle_pending Warn C (snd (generate C pkg projectName features w))) = Return ()"
    and "fst (settle_pending Terminate C (snd (generate C pkg projectName features w))) = Exit 1"
    and "trace (snd (settle_pending policy C (snd (generate C pkg projectName features w)))) =
           trace (snd (generate C pkg projectName features w)) @
           [Settled (Remove (getProjectDir w projectName @ ''/.git'')) None,
            Settled (Remove (getProjectDir w projectName @ ''/cli'')) None,
            Settled (Unlink (getProjectDir w projectName @ ''/README.md''))
              (Some (ENOENT (getProjectDir w projectName @ ''/README.md''))),
            UnhandledRejection (ENOENT (getProjectDir w projectName @ ''/README.md''))]"
  using assms(5)
  by (cases policy;
      simp add: settle_pending_def settle_def
        generate_completes(3,5) [OF assms(1-3)] assms(4) getProjectDir_def)+

text \<open>\<^verbatim>\<open>generate\<close> never throws and never exits: what its steps throw, its handler takes.\<close>

lemma generate_returns: "fst (generate C pkg projectName features w) = Return ()"
  by (simp add: service_defs split: prod.splits option.splits node.splits outcome.splits)

text \<open>A failure of the clone is caught and logged, and no later step is taken.\<close>

lemma generate_clone_failure:
  assumes "git_clone C (repo_url (pkg_repository pkg)) (getProjectDir w projectName) (files w) =
             (Some e, fs)"
  shows "trace (snd (generate C pkg projectName features w)) =
           trace w @
           [SpinnerStart ''creating extension...'',
            Issued (Clone (repo_url (pkg_repository pkg)) (getProjectDir w projectName)),
            Settled (Clone (repo_url (pkg_repository pkg)) (getProjectDir w projectName)) (Some e),
            LogError (Caught e),
            SpinnerStop None]"
    and "files (snd (generate C pkg projectName features w)) = fs"
  using assms by (simp_all add: service_defs)

text \<open>So is a package.json that cannot be loaded: the manifest is not touched.\<close>

lemma generate_package_failure:
  assumes "git_clone C (repo_url (pkg_repository pkg)) (getProjectDir w projectName) (files w) =
             (None, fs)"
    and "fs (getProjectDir w projectName @ ''/package.json'') = None"
  shows "trace (snd (generate C pkg projectName features w)) =
           trace w @
           [SpinnerStart ''creating extension...'',
            Issued (Clone (repo_url (pkg_repository pkg)) (getProjectDir w projectName)),
            Settled (Clone (repo_url (pkg_repository pkg)) (getProjectDir w projectName)) None,
            Issued (Remove (getProjectDir w projectName @ ''/.git'')),
            Issued (Remove (getProjectDir w projectName @ ''/cli'')),
            Issued (Unlink (getProjectDir w projectName @ ''/README.md'')),
            LogError (Caught (MODULE_NOT_FOUND (getProjectDir w projectName @ ''/package.json''))),
            SpinnerStop None]"
    and "files (snd (generate C pkg projectName features w)) = fs"
  using assms by (simp_all add: service_defs)

lemma sample_dir: "getProjectDir sample_world ''my-app'' = ''/home/dev/my-app''"
  by (simp add: getProjectDir_def sample_world_def)

lemma sample_url:
  "repo_url (pkg_repository sample_pkg) = ''https://github.com/larscom/angular-chrome-extension''"
  by (simp add: sample_pkg_def)

lemma sample_clone:
  "git_clone sample_collaborators (repo_url (pkg_repository sample_pkg))
     (getProjectDir sample_world ''my-app'') (files sample_world) =
   (None, template_tree ''/home/dev/my-app'')"
  by (simp add: sample_collaborators_def sample_world_def getProjectDir_def)

lemma sample_tree:
  "template_tree ''/home/dev/my-app'' (getProjectDir sample_world ''my-app'' @ ''/package.json'') =
     Some (JsonFile sample_package 4)"
  "template_tree ''/home/dev/my-app''
     (getProjectDir sample_world ''my-app'' @ ''/angular/src/manifest.json'') =
     Some (JsonFile sample_manifest 4)"
  by (simp_all add: template_tree_def sample_dir)

lemma bare_clone:
  "git_clone bare_collaborators (repo_url (pkg_repository sample_pkg))
     (getProjectDir sample_world ''my-app'') (files sample_world) =
   (None, bare_tree ''/home/dev/my-app'')"
  by (simp add: bare_collaborators_def sample_world_def getProjectDir_def)

lemma bare_tree_files:
  "bare_tree ''/home/dev/my-app'' (getProjectDir sample_world ''my-app'' @ ''/package.json'') =
     Some (JsonFile sample_package 4)"
  "bare_tree ''/home/dev/my-app''
     (getProjectDir sample_world ''my-app'' @ ''/angular/src/manifest.json'') =
     Some (JsonFile sample_manifest 4)"
  by (simp_all add: bare_tree_def sample_dir)

lemma bare_tree_absent:
  "bare_tree ''/home/dev/my-app'' (getProjectDir sample_world ''my-app'' @ ''/README.md'') = None"
  "bare_tree ''/home/dev/my-app'' (getProjectDir sample_world ''my-app'' @ ''/'' @ ''README.md'') =
     None"
  "bare_tree ''/home/dev/my-app'' (getProjectDir sample_world ''my-app'' @ ''/'' @ ''.git'') = None"
  "bare_tree ''/home/dev/my-app'' (getProjectDir sample_world ''my-app'' @ ''/'' @ ''cli'') = None"
  by (simp_all add: bare_tree_def sample_dir)

lemma sample_pending: "pending sample_world = []" and sample_trace: "trace sample_world = []"
  by (simp_all add: sample_world_def)

lemma cloned_pending: "pending cloned_world = []"
  by (simp add: cloned_world_def sample_world_def)

text \<open>
  C6: the code does not do what the claim says. In the run below everything that
  happens before \<^verbatim>\<open>package.json\<close> is read (the first action of step 4) is listed: the
  three removals have been started and none has settled. When the promise of
  \<^verbatim>\<open>cleanDir\<close> is fulfilled, the three removals are pending.
\<close>

theorem generate_rewrites_before_removals_settle:
  "takeWhile (\<lambda>ev. ev \<noteq> Required ''/home/dev/my-app/package.json'')
     (trace (snd (generate sample_collaborators sample_pkg ''my-app'' [POPUP, TAB] sample_world))) =
     [SpinnerStart ''creating extension...'',
      Issued (Clone ''https://github.com/larscom/angular-chrome-extension'' ''/home/dev/my-app''),
      Settled (Clone ''https://github.com/larscom/angular-chrome-extension'' ''/home/dev/my-app'')
        None,
      Issued (Remove ''/home/dev/my-app/.git''),
      Issued (Remove ''/home/dev/my-app/cli''),
      Issued (Unlink ''/home/dev/my-app/README.md'')] \<and>
   Required ''/home/dev/my-app/package.json'' \<in>
     set (trace (snd (generate sample_collaborators sample_pkg ''my-app'' [POPUP, TAB]
                        sample_world))) \<and>
   pending (snd (cleanDir sample_collaborators ''/home/dev/my-app'' cloned_world)) =
     [Remove ''/home/dev/my-app/.git'', Remove ''/home/dev/my-app/cli'',
      Unlink ''/home/dev/my-app/README.md'']"
proof -
  note run = generate_completes [OF sample_clone sample_tree, of "[POPUP, TAB]"]
  show ?thesis
    by (simp add: run(2) cleanDir_awaits_nothing cloned_pending sample_trace sample_dir
        sample_url)
qed

text \<open>
  C7: the code does not do what the claim says for the clean step. In the run below the
  clone leaves no README.md, so the removal of README.md fails. \<^verbatim>\<open>generate\<close> neither
  catches nor logs the failure: it goes on to rewrite both files and reports success.
  The failure comes up as a rejection that no handler has taken, on which a runtime
  that ends the process exits with status 1.
\<close>

theorem generate_misses_removal_failure:
  "fst (generate bare_collaborators sample_pkg ''my-app'' [POPUP] sample_world) = Return () \<and>
   logged_errors (trace (snd (generate bare_collaborators sample_pkg ''my-app'' [POPUP]
                                sample_world))) = [] \<and>
   Required ''/home/dev/my-app/angular/src/manifest.json'' \<in>
     set (trace (snd (generate bare_collaborators sample_pkg ''my-app'' [POPUP] sample_world))) \<and>
   last (trace (snd (generate bare_collaborators sample_pkg ''my-app'' [POPUP] sample_world))) =
     SpinnerStop (Some ''done! created extension in: /home/dev/my-app'') \<and>
   trace (snd (settle_pending Warn bare_collaborators
            (snd (generate bare_collaborators sample_pkg ''my-app'' [POPUP] sample_world)))) =
     trace (snd (generate bare_collaborators sample_pkg ''my-app'' [POPUP] sample_world)) @
     [Settled (Remove ''/home/dev/my-app/.git'') None,
      Settled (Remove ''/home/dev/my-app/cli'') None,
      Settled (Unlink ''/home/dev/my-app/README.md'') (Some (ENOENT ''/home/dev/my-app/README.md'')),
      UnhandledRejection (ENOENT ''/home/dev/my-app/README.md'')] \<and>
   fst (settle_pending Terminate bare_collaborators
          (snd (generate bare_collaborators sample_pkg ''my-app'' [POPUP] sample_world))) = Exit 1"
proof -
  note run = generate_completes [OF bare_clone bare_tree_files, of "[POPUP]"]
  note exits = unlink_rejection_unhandled(2)
    [OF bare_clone bare_tree_files sample_pending bare_tree_absent(1),
     where features = "[POPUP]"]
  note late = unlink_rejection_unhandled(3)
    [OF bare_clone bare_tree_files sample_pending bare_tree_absent(1),
     where features = "[POPUP]" and policy = Warn]
  show ?thesis
    using late by (simp add: run(1,2) exits sample_trace sample_dir)
qed

text \<open>
  C9: the code does not do what the claim says for README.md. The directories are
  removed with \<^verbatim>\<open>fs.remove\<close>, which succeeds on a path that is not there; README.md is
  removed with \<^verbatim>\<open>fs.unlink\<close>, which is rejected with ENOENT. In the run below the clone
  leaves none of the three targets: the rejection of the \<^verbatim>\<open>unlink\<close> reaches no handler,
  and a runtime that ends the process on such a rejection exits with status 1 before
  the dependencies are installed.
\<close>

theorem absent_readme_is_rejected:
  "fst (perform bare_collaborators (Remove ''/home/dev/my-app/.git'') ''/home/dev''
          (bare_tree ''/home/dev/my-app'')) = None \<and>
   fst (perform bare_collaborators (Remove ''/home/dev/my-app/cli'') ''/home/dev''
          (bare_tree ''/home/dev/my-app'')) = None \<and>
   fst (perform bare_collaborators (Unlink ''/home/dev/my-app/README.md'') ''/home/dev''
          (bare_tree ''/home/dev/my-app'')) = Some (ENOENT ''/home/dev/my-app/README.md'') \<and>
   UnhandledRejection (ENOENT ''/home/dev/my-app/README.md'') \<in>
     set (trace (snd (settle_pending Terminate bare_collaborators
            (snd (generate bare_collaborators sample_pkg ''my-app'' [OPTIONS] sample_world))))) \<and>
   fst (settle_pending Terminate bare_collaborators
          (snd (generate bare_collaborators sample_pkg ''my-app'' [OPTIONS] sample_world))) =
     Exit 1"
proof -
  note exits = unlink_rejection_unhandled(2)
    [OF bare_clone bare_tree_files sample_pending bare_tree_absent(1),
     where features = "[OPTIONS]"]
  note late = unlink_rejection_unhandled(3)
    [OF bare_clone bare_tree_files sample_pending bare_tree_absent(1),
     where features = "[OPTIONS]" and policy = Terminate]
  have "bare_tree ''/home/dev/my-app'' ''/home/dev/my-app/README.md'' = None"
    using bare_tree_absent(1) by (simp add: sample_dir)
  then show ?thesis
    using late by (simp add: exits sample_dir)
qed

end
